theory Spec2Isabelle
  imports Main "HOL-Library.Sublist" "HOL-Library.AList"
begin

section \<open>SmishGrade: heuristic URL scorer and WHOIS age cache\<close>

text \<open>
  A shallow embedding of \<^verbatim>\<open>SmishGrade.py\<close>. The module-level dictionary
  \<^verbatim>\<open>whois_cache\<close>, the external WHOIS queries issued and the lines printed are
  threaded through the functions as an explicit state. Every function that can raise
  returns a sum: \<open>Inl\<close> is the exception that leaves the function, \<open>Inr\<close> its value.

  The library functions the module calls (\<^verbatim>\<open>urlparse\<close>, \<^verbatim>\<open>tldextract.extract\<close>,
  \<^verbatim>\<open>ipaddress.ip_address\<close>, \<^verbatim>\<open>whois.whois\<close>, the clock, file access and the
  JSON codec) are not part of the module: they are the fields of an environment, and
  the theorems hold for all of them. Only for the statement about URLs without an http
  scheme, which turns on what \<^verbatim>\<open>urlparse\<close> does with a scheme, are the relevant steps
  of the library transcribed.
\<close>

subsection \<open>Constants of the module\<close>

datatype heuristic =
    H1_Length
  | H2_IP_Hostname
  | H3_At_Symbol
  | H4_Keywords
  | H5_Subdomains
  | H6_Abused_TLD
  | H7_Domain_Age

fun heuristic_weights :: "heuristic \<Rightarrow> int" where
  "heuristic_weights H1_Length = 5"
| "heuristic_weights H2_IP_Hostname = 40"
| "heuristic_weights H3_At_Symbol = 10"
| "heuristic_weights H4_Keywords = 5"
| "heuristic_weights H5_Subdomains = 15"
| "heuristic_weights H6_Abused_TLD = 20"
| "heuristic_weights H7_Domain_Age = 50"

definition abused_TLD :: "string list" where
  "abused_TLD = [''.xyz'', ''.top'', ''.link'', ''.club'', ''.online'', ''.live'']"

definition suspicious_keywords :: "string list" where
  "suspicious_keywords = [''login'', ''verify'', ''secure'', ''account'', ''update'', ''bank'']"

definition malicious_threshold :: int where
  "malicious_threshold = 20"

definition suspicious_threshold :: int where
  "suspicious_threshold = 1"

subsection \<open>Exceptions, printed lines, state and environment\<close>

text \<open>
  Only exceptions derived from Python's \<^verbatim>\<open>Exception\<close> are modelled, so a handler
  \<^verbatim>\<open>except Exception\<close> catches every value of this type.
\<close>

datatype exn =
    FileNotFoundError
  | JSONDecodeError
  | AttributeError
  | ValueError
  | UnicodeDecodeError
  | TypeError
  | OtherError string

datatype msg =
    Found_Entries nat
  | No_Cache_File
  | Cache_Broken
  | Cache_Saved nat
  | Could_Not_Save exn
  | Looking_Up string
  | Failed_For string exn
  | Failed_To_Parse string exn

text \<open>
  What \<^verbatim>\<open>domain_info.creation_date\<close> can hold: nothing, one value, or a list of
  values. A value is either a timezone-aware datetime (seconds since the epoch), from
  which the aware \<^verbatim>\<open>datetime.now(timezone.utc)\<close> can be subtracted, or anything else
  (a naive datetime, a string), for which the subtraction raises \<^verbatim>\<open>TypeError\<close>.
\<close>

datatype origin = Aware int | Unsubtractable

datatype creation_date = No_Date | Single origin | Multiple "origin list"

text \<open>
  What \<^verbatim>\<open>json.load\<close> can return. \<open>JFloat\<close> stands for any number that is not an
  integer; its value plays no part below.
\<close>

datatype json =
    JNull
  | JBool bool
  | JInt int
  | JFloat
  | JString string
  | JArray "json list"
  | JObject "(string \<times> json) list"

record env =
  urlparse :: "string \<Rightarrow> exn + (string option \<times> string)"
  tldextract :: "string \<Rightarrow> exn + (string \<times> string \<times> string)"
  ip_address :: "string \<Rightarrow> bool"
  whois :: "string \<Rightarrow> exn + creation_date"
  now :: int
  read_cache_file :: "exn + string"
  json_load :: "string \<Rightarrow> exn + json"
  write_cache_file :: "(string \<times> int) list \<Rightarrow> exn + unit"

text \<open>
  \<open>urlparse env u\<close> is the hostname (\<open>None\<close> for Python's \<^verbatim>\<open>None\<close>) and the path of
  \<^verbatim>\<open>urlparse(u)\<close>; \<open>tldextract env u\<close> is \<^verbatim>\<open>top_domain_under_public_suffix\<close>,
  \<^verbatim>\<open>subdomain\<close> and \<^verbatim>\<open>suffix\<close> of \<^verbatim>\<open>tldextract.extract(u)\<close>;
  \<open>ip_address env h\<close> holds when \<^verbatim>\<open>ipaddress.ip_address(h)\<close> does not raise
  \<^verbatim>\<open>ValueError\<close>; \<open>whois env d\<close> is the creation date reported by \<^verbatim>\<open>whois.whois(d)\<close>;
  \<open>read_cache_file\<close> is the outcome of opening the cache file and reading its text
  (\<^verbatim>\<open>FileNotFoundError\<close> when it is absent, \<^verbatim>\<open>UnicodeDecodeError\<close> when its bytes
  are not text), \<open>json_load\<close> that of decoding the text, \<open>write_cache_file\<close> that of
  opening the file for writing and dumping the dictionary into it.
\<close>

type_synonym cache = "(string \<times> int) list"

record 'c state =
  whois_cache :: 'c
  queries :: "string list"
  printed :: "msg list"

text \<open>
  \<open>check_cache\<close> assigns to \<^verbatim>\<open>whois_cache\<close> whatever the decoder returned, so the
  state it works on holds a \<open>json\<close> value. The lookup, the scorer and \<open>save_cache\<close>
  are modelled on a cache that is a dictionary from strings to integers, which is what
  the module itself stores and writes.
  The dictionary is an association list read with \<open>map_of\<close> and written with
  \<open>AList.update\<close>, which overwrites the value of a key that is present and adds a
  missing key at the end. \<open>queries\<close> lists the domains sent to the WHOIS provider, in
  order; \<open>printed\<close> the lines written to the terminal.
\<close>

definition print :: "msg \<Rightarrow> 'c state \<Rightarrow> 'c state" where
  "print m st = st\<lparr>printed := printed st @ [m]\<rparr>"

definition store :: "string \<Rightarrow> int \<Rightarrow> cache state \<Rightarrow> cache state" where
  "store domain v st = st\<lparr>whois_cache := AList.update domain v (whois_cache st)\<rparr>"

subsection \<open>Loading and saving the cache\<close>

text \<open>
  \<^verbatim>\<open>len\<close> of a decoded value: a number, a boolean and \<^verbatim>\<open>None\<close> have no length.
\<close>

definition json_len :: "json \<Rightarrow> exn + nat" where
  "json_len j =
     (case j of
        JObject kvs \<Rightarrow> Inr (length kvs)
      | JArray xs \<Rightarrow> Inr (length xs)
      | JString t \<Rightarrow> Inr (length t)
      | _ \<Rightarrow> Inl TypeError)"

text \<open>
  The two \<^verbatim>\<open>except\<close> clauses of \<open>check_cache\<close>, applied to an exception raised in
  state \<open>st\<close>; any other exception leaves the function.
\<close>

definition check_cache_handlers :: "exn \<Rightarrow> json state \<Rightarrow> (exn + unit) \<times> json state" where
  "check_cache_handlers e st =
     (if e = FileNotFoundError
      then (Inr (), (print No_Cache_File st)\<lparr>whois_cache := JObject []\<rparr>)
      else if e = JSONDecodeError
      then (Inr (), (print Cache_Broken st)\<lparr>whois_cache := JObject []\<rparr>)
      else (Inl e, st))"

definition check_cache :: "env \<Rightarrow> json state \<Rightarrow> (exn + unit) \<times> json state" where
  "check_cache env st =
     (case read_cache_file env of
        Inl e \<Rightarrow> check_cache_handlers e st
      | Inr content \<Rightarrow>
          (case json_load env content of
             Inl e \<Rightarrow> check_cache_handlers e st
           | Inr j \<Rightarrow>
               (let st1 = st\<lparr>whois_cache := j\<rparr>
                in case json_len j of
                     Inl e \<Rightarrow> check_cache_handlers e st1
                   | Inr n \<Rightarrow> (Inr (), print (Found_Entries n) st1))))"

definition save_cache :: "env \<Rightarrow> cache state \<Rightarrow> (exn + unit) \<times> cache state" where
  "save_cache env st =
     (case write_cache_file env (whois_cache st) of
        Inr _ \<Rightarrow> (Inr (), print (Cache_Saved (length (whois_cache st))) st)
      | Inl error_message \<Rightarrow> (Inr (), print (Could_Not_Save error_message) st))"

subsection \<open>Domain age lookup\<close>

text \<open>
  The body of the \<^verbatim>\<open>try\<close> block of \<^verbatim>\<open>get_domain_age\<close> up to the assignment to the
  cache: \<open>Inr (Some a)\<close> is a computed age, \<open>Inr None\<close> the \<^verbatim>\<open>else\<close> branch of a
  false \<^verbatim>\<open>creation_date\<close>, \<open>Inl e\<close> an exception raised on the way.
  \<^verbatim>\<open>timedelta.days\<close> is the floor of the difference in days.
\<close>

definition age_in_days :: "int \<Rightarrow> origin \<Rightarrow> exn + int option" where
  "age_in_days t origin_date =
     (case origin_date of
        Aware t0 \<Rightarrow> Inr (Some ((t - t0) div 86400))
      | Unsubtractable \<Rightarrow> Inl TypeError)"

definition whois_age :: "env \<Rightarrow> string \<Rightarrow> exn + int option" where
  "whois_age env domain =
     (case whois env domain of
        Inl e \<Rightarrow> Inl e
      | Inr No_Date \<Rightarrow> Inr None
      | Inr (Multiple []) \<Rightarrow> Inr None
      | Inr (Multiple (d # ds)) \<Rightarrow> age_in_days (now env) d
      | Inr (Single d) \<Rightarrow> age_in_days (now env) d)"

definition get_domain_age ::
  "env \<Rightarrow> string \<Rightarrow> cache state \<Rightarrow> (exn + int) \<times> cache state" where
  "get_domain_age env domain st =
     (case map_of (whois_cache st) domain of
        Some v \<Rightarrow> (Inr v, st)
      | None \<Rightarrow>
          (let st1 = print (Looking_Up domain) st;
               st2 = st1\<lparr>queries := queries st1 @ [domain]\<rparr>
           in case whois_age env domain of
                Inr (Some age) \<Rightarrow> (Inr age, store domain age st2)
              | Inr None \<Rightarrow> (Inr (- 1), store domain (- 1) st2)
              | Inl e \<Rightarrow> (Inr (- 1), store domain (- 1) (print (Failed_For domain e) st2))))"

subsection \<open>Scoring a URL\<close>

datatype verdict = Benign | Suspicious | Malicious | Error_No_Hostname | Error_Parsing

type_synonym result = "int \<times> verdict \<times> heuristic list \<times> int"

type_synonym acc = "int \<times> heuristic list"

record features =
  hostname :: "string option"
  path :: string
  main_domain :: string
  subdomain :: string
  tld :: string

definition url_to_parse :: "string \<Rightarrow> string" where
  "url_to_parse url =
     (if \<not> (prefix ''http://'' url \<or> prefix ''https://'' url) then ''http://'' @ url else url)"

text \<open>The statements of the first \<^verbatim>\<open>try\<close> block before the hostname test.\<close>

definition parse_features :: "env \<Rightarrow> string \<Rightarrow> exn + features" where
  "parse_features env u =
     (case urlparse env u of
        Inl e \<Rightarrow> Inl e
      | Inr (h, p) \<Rightarrow>
          (case tldextract env u of
             Inl e \<Rightarrow> Inl e
           | Inr (top_domain, sub, sfx) \<Rightarrow>
               Inr \<lparr>hostname = h, path = p, main_domain = top_domain, subdomain = sub,
                    tld = CHR ''.'' # sfx\<rparr>))"

text \<open>\<^verbatim>\<open>total_score += heuristic_weights[h]; heuristics_found.append(h)\<close>\<close>

definition add_heuristic :: "heuristic \<Rightarrow> acc \<Rightarrow> acc" where
  "add_heuristic h a = (fst a + heuristic_weights h, snd a @ [h])"

text \<open>
  Lines 148 to 150. The score is increased and then \<^verbatim>\<open>append\<close> is called on the
  dictionary \<^verbatim>\<open>heuristic_weights\<close>, not on the list \<^verbatim>\<open>heuristics_found\<close>; a
  dictionary has no such attribute, so the call raises \<^verbatim>\<open>AttributeError\<close>, outside
  any \<^verbatim>\<open>try\<close> block.
\<close>

definition dict_append :: "heuristic \<Rightarrow> exn + unit" where
  "dict_append h = Inl AttributeError"

definition h1_length :: "string \<Rightarrow> acc \<Rightarrow> exn + acc" where
  "h1_length url a =
     (if length url > 75 then
        (case dict_append H1_Length of
           Inl e \<Rightarrow> Inl e
         | Inr _ \<Rightarrow> Inr (fst a + heuristic_weights H1_Length, snd a))
      else Inr a)"

text \<open>\<^verbatim>\<open>str.lower\<close> on the letters A to Z; the model's characters are bytes.\<close>

definition lower_char :: "char \<Rightarrow> char" where
  "lower_char c =
     (let n = (of_char c :: nat) in if 65 \<le> n \<and> n \<le> 90 then char_of (n + 32) else c)"

definition lower :: "string \<Rightarrow> string" where
  "lower s = map lower_char s"

text \<open>\<^verbatim>\<open>k in s\<close> for strings: \<open>k\<close> occurs in \<open>s\<close> as a contiguous block.\<close>

fun contains :: "string \<Rightarrow> string \<Rightarrow> bool" where
  "contains [] k = (k = [])"
| "contains (c # cs) k = (prefix k (c # cs) \<or> contains cs k)"

text \<open>The keyword loop with its \<^verbatim>\<open>break\<close>.\<close>

fun keyword_loop :: "string list \<Rightarrow> string \<Rightarrow> acc \<Rightarrow> acc" where
  "keyword_loop [] p a = a"
| "keyword_loop (keyword # ks) p a =
     (if contains (lower p) keyword then add_heuristic H4_Keywords a else keyword_loop ks p a)"

definition final_verdict :: "int \<Rightarrow> verdict" where
  "final_verdict total_score =
     (if total_score \<ge> malicious_threshold then Malicious
      else if total_score \<ge> suspicious_threshold then Suspicious
      else Benign)"

text \<open>The heuristics H2 to H6, in the order of the source.\<close>

definition structural_heuristics :: "env \<Rightarrow> string \<Rightarrow> string \<Rightarrow> features \<Rightarrow> acc \<Rightarrow> acc" where
  "structural_heuristics env url host f a1 =
     (let a2 = (if ip_address env host then add_heuristic H2_IP_Hostname a1 else a1);
          a3 = (if CHR ''@'' \<in> set url then add_heuristic H3_At_Symbol a2 else a2);
          a4 = keyword_loop suspicious_keywords (path f) a3;
          a5 = (if count_list (subdomain f) (CHR ''.'') \<ge> 2
                then add_heuristic H5_Subdomains a4 else a4);
          a6 = (if tld f \<in> set abused_TLD then add_heuristic H6_Abused_TLD a5 else a5)
      in a6)"

definition h7_domain_age :: "int \<Rightarrow> acc \<Rightarrow> acc" where
  "h7_domain_age domain_age a =
     (if 0 \<le> domain_age \<and> domain_age \<le> 30 then add_heuristic H7_Domain_Age a else a)"

definition analyze_url ::
  "env \<Rightarrow> string \<Rightarrow> cache state \<Rightarrow> (exn + result) \<times> cache state" where
  "analyze_url env url st =
     (case parse_features env (url_to_parse url) of
        Inl error_message \<Rightarrow>
          (Inr (0, Error_Parsing, [], - 1), print (Failed_To_Parse url error_message) st)
      | Inr f \<Rightarrow>
          (case hostname f of
             None \<Rightarrow> (Inr (0, Error_No_Hostname, [], - 1), st)
           | Some host \<Rightarrow>
               if host = [] then (Inr (0, Error_No_Hostname, [], - 1), st)
               else
                 (case h1_length url (0, []) of
                    Inl e \<Rightarrow> (Inl e, st)
                  | Inr a1 \<Rightarrow>
                      (let a6 = structural_heuristics env url host f a1
                       in case get_domain_age env (main_domain f) st of
                            (Inl e, st') \<Rightarrow> (Inl e, st')
                          | (Inr domain_age, st') \<Rightarrow>
                              (let a7 = h7_domain_age domain_age a6
                               in (Inr (fst a7, final_verdict (fst a7), snd a7, domain_age),
                                   st'))))))"

subsection \<open>The standard library's \<^verbatim>\<open>urlparse\<close>\<close>














subsection \<open>Auxiliary notions for the statements\<close>

definition weight_sum :: "heuristic list \<Rightarrow> int" where
  "weight_sum hs = sum_list (map heuristic_weights hs)"

definition consistent :: "acc \<Rightarrow> bool" where
  "consistent a = (fst a = weight_sum (snd a))"

text \<open>
  An environment for the worked examples: the parsers answer \<open>up\<close> and \<open>te\<close>, the
  WHOIS provider answers \<open>w\<close>, no hostname is an IP address, the cache file is absent
  and cannot be written.
\<close>

definition sample_env ::
  "exn + (string option \<times> string) \<Rightarrow> exn + (string \<times> string \<times> string)
     \<Rightarrow> exn + creation_date \<Rightarrow> env" where
  "sample_env up te w =
     \<lparr>urlparse = (\<lambda>u. up), tldextract = (\<lambda>u. te), ip_address = (\<lambda>h. False),
      whois = (\<lambda>d. w), now = 1762128000, read_cache_file = Inl FileNotFoundError,
      json_load = (\<lambda>s. Inl JSONDecodeError),
      write_cache_file = (\<lambda>c. Inl (OtherError ''Permission denied''))\<rparr>"

definition empty_state :: "cache state" where
  "empty_state = \<lparr>whois_cache = [], queries = [], printed = []\<rparr>"

section \<open>Properties\<close>

subsection \<open>The accumulated score and list\<close>

lemma get_domain_age_returns: "\<exists>v. fst (get_domain_age env domain st) = Inr v"
  by (simp add: get_domain_age_def Let_def split: option.split sum.split)

lemma consistent_add: "consistent a \<Longrightarrow> consistent (add_heuristic h a)"
  by (simp add: consistent_def add_heuristic_def weight_sum_def)

lemma consistent_keyword_loop: "consistent a \<Longrightarrow> consistent (keyword_loop ks p a)"
  by (induction ks) (simp_all add: consistent_add)

lemma consistent_structural:
  "consistent a \<Longrightarrow> consistent (structural_heuristics env url host f a)"
  by (simp add: structural_heuristics_def Let_def consistent_add consistent_keyword_loop)

lemma consistent_h7: "consistent a \<Longrightarrow> consistent (h7_domain_age age a)"
  by (simp add: h7_domain_age_def consistent_add)


lemma h1_length_Inr: "h1_length url a = Inr a1 \<Longrightarrow> a1 = a \<and> length url \<le> 75"
  by (simp add: h1_length_def dict_append_def split: if_splits)

text \<open>The list built by each stage, written out.\<close>

lemma snd_keyword_loop:
  "snd (keyword_loop ks p a) =
     snd a @ (if \<exists>k \<in> set ks. contains (lower p) k then [H4_Keywords] else [])"
  by (induction ks) (simp_all add: add_heuristic_def)

lemma snd_structural:
  "snd (structural_heuristics env url host f a) =
     snd a
     @ (if ip_address env host then [H2_IP_Hostname] else [])
     @ (if CHR ''@'' \<in> set url then [H3_At_Symbol] else [])
     @ (if \<exists>k \<in> set suspicious_keywords. contains (lower (path f)) k
        then [H4_Keywords] else [])
     @ (if 2 \<le> count_list (subdomain f) (CHR ''.'') then [H5_Subdomains] else [])
     @ (if tld f \<in> set abused_TLD then [H6_Abused_TLD] else [])"
  by (simp add: structural_heuristics_def Let_def snd_keyword_loop add_heuristic_def)

lemma snd_h7:
  "snd (h7_domain_age age a) =
     snd a @ (if 0 \<le> age \<and> age \<le> 30 then [H7_Domain_Age] else [])"
  by (simp add: h7_domain_age_def add_heuristic_def)

subsection \<open>The ways \<open>analyze_url\<close> returns\<close>

text \<open>
  A call that returns a tuple either reports one of the two parse errors or has gone
  through every stage: the URL has at most 75 characters, the parse gave a non-empty
  hostname, the age is the one \<open>get_domain_age\<close> gave for the registered domain, and
  score and list are those of the stages H2 to H7.
\<close>

lemma analyze_url_cases:
  assumes "analyze_url env url st = (Inr (score, v, hs, age), st')"
  shows "(v = Error_Parsing \<and> score = 0 \<and> hs = [] \<and> age = - 1)
       \<or> (v = Error_No_Hostname \<and> score = 0 \<and> hs = [] \<and> age = - 1)
       \<or> (\<exists>f host. parse_features env (url_to_parse url) = Inr f
            \<and> hostname f = Some host \<and> host \<noteq> []
            \<and> length url \<le> 75
            \<and> get_domain_age env (main_domain f) st = (Inr age, st')
            \<and> (score, hs) = h7_domain_age age (structural_heuristics env url host f (0, []))
            \<and> v = final_verdict score)"
  using assms
  by (auto simp: analyze_url_def Let_def dest!: h1_length_Inr
        split: sum.splits option.splits if_splits prod.splits)

lemma analyze_url_scored:
  assumes "analyze_url env url st = (Inr (score, v, hs, age), st')"
    and "v \<noteq> Error_Parsing" and "v \<noteq> Error_No_Hostname"
  obtains f host where "parse_features env (url_to_parse url) = Inr f"
    and "hostname f = Some host" and "host \<noteq> []" and "length url \<le> 75"
    and "get_domain_age env (main_domain f) st = (Inr age, st')"
    and "(score, hs) = h7_domain_age age (structural_heuristics env url host f (0, []))"
    and "v = final_verdict score"
  using analyze_url_cases [OF assms(1)] assms(2,3) by blast

text \<open>
  Conversely, a URL of at most 75 characters always gets a tuple: the only exception
  that leaves \<open>analyze_url\<close> is the one of the H1 stage.
\<close>

lemma analyze_url_short_returns:
  assumes "length url \<le> 75"
  shows "\<exists>r st'. analyze_url env url st = (Inr r, st')"
proof (cases "parse_features env (url_to_parse url)")
  case (Inl e)
  then show ?thesis by (simp add: analyze_url_def)
next
  case (Inr f)
  obtain v st1 where g: "get_domain_age env (main_domain f) st = (Inr v, st1)"
    using get_domain_age_returns [of env "main_domain f" st]
    by (cases "get_domain_age env (main_domain f) st") auto
  from assms have h: "h1_length url (0, []) = Inr (0, [])"
    by (simp add: h1_length_def)
  show ?thesis
    using Inr g h by (cases "hostname f") (auto simp: analyze_url_def Let_def)
qed

text \<open>
  A tuple with a verdict other than the two parse errors is returned exactly for the
  URLs of at most 75 characters that parse with a non-empty hostname.
\<close>

lemma analyze_url_scored_iff:
  "(\<exists>score v hs age st'. analyze_url env url st = (Inr (score, v, hs, age), st')
        \<and> v \<noteq> Error_Parsing \<and> v \<noteq> Error_No_Hostname)
   \<longleftrightarrow> (\<exists>f host. parse_features env (url_to_parse url) = Inr f
          \<and> hostname f = Some host \<and> host \<noteq> [] \<and> length url \<le> 75)"
proof
  assume "\<exists>score v hs age st'. analyze_url env url st = (Inr (score, v, hs, age), st')
        \<and> v \<noteq> Error_Parsing \<and> v \<noteq> Error_No_Hostname"
  then obtain score v hs age st' where
    "analyze_url env url st = (Inr (score, v, hs, age), st')"
    "v \<noteq> Error_Parsing" "v \<noteq> Error_No_Hostname"
    by blast
  then show "\<exists>f host. parse_features env (url_to_parse url) = Inr f
          \<and> hostname f = Some host \<and> host \<noteq> [] \<and> length url \<le> 75"
    by (elim analyze_url_scored) auto
next
  assume "\<exists>f host. parse_features env (url_to_parse url) = Inr f
          \<and> hostname f = Some host \<and> host \<noteq> [] \<and> length url \<le> 75"
  then obtain f host where p: "parse_features env (url_to_parse url) = Inr f"
    and h: "hostname f = Some host" "host \<noteq> []" and len: "length url \<le> 75"
    by blast
  obtain a st1 where g: "get_domain_age env (main_domain f) st = (Inr a, st1)"
    using get_domain_age_returns [of env "main_domain f" st]
    by (cases "get_domain_age env (main_domain f) st") auto
  from len have h1: "h1_length url (0, []) = Inr (0, [])" by (simp add: h1_length_def)
  let ?a = "h7_domain_age a (structural_heuristics env url host f (0, []))"
  have "analyze_url env url st = (Inr (fst ?a, final_verdict (fst ?a), snd ?a, a), st1)"
    using p h g h1 by (simp add: analyze_url_def Let_def)
  moreover have "final_verdict (fst ?a) \<noteq> Error_Parsing"
    and "final_verdict (fst ?a) \<noteq> Error_No_Hostname"
    by (simp_all add: final_verdict_def)
  ultimately show "\<exists>score v hs age st'. analyze_url env url st = (Inr (score, v, hs, age), st')
        \<and> v \<noteq> Error_Parsing \<and> v \<noteq> Error_No_Hostname"
    by blast
qed

lemma fst_h7:
  "fst (h7_domain_age age a) =
     fst a + (if 0 \<le> age \<and> age \<le> 30 then heuristic_weights H7_Domain_Age else 0)"
  by (simp add: h7_domain_age_def add_heuristic_def)

lemma structural_consistent_from_zero:
  "fst (structural_heuristics env url host f (0, [])) =
     weight_sum (snd (structural_heuristics env url host f (0, [])))"
proof -
  have "consistent (0, [])" by (simp add: consistent_def weight_sum_def)
  then have "consistent (structural_heuristics env url host f (0, []))"
    by (rule consistent_structural)
  then show ?thesis by (simp add: consistent_def)
qed

lemma h7_not_structural:
  "H7_Domain_Age \<notin> set (snd (structural_heuristics env url host f (0, [])))"
  by (simp add: snd_structural)


subsection \<open>Worked examples\<close>

lemmas eval_defs =
  analyze_url_def parse_features_def url_to_parse_def sample_env_def empty_state_def
  h1_length_def dict_append_def structural_heuristics_def h7_domain_age_def add_heuristic_def
  suspicious_keywords_def abused_TLD_def lower_def lower_char_def final_verdict_def
  malicious_threshold_def suspicious_threshold_def get_domain_age_def whois_age_def
  age_in_days_def print_def store_def Let_def

text \<open>
  A domain registered ten days ago, three subdomain labels, an abused TLD and a keyword
  in the path.
\<close>

lemma run_young:
  "analyze_url
     (sample_env (Inr (Some ''a.b.c.example.xyz'', ''/login''))
        (Inr (''example.xyz'', ''a.b.c'', ''xyz'')) (Inr (Single (Aware 1761264000))))
     ''http://a.b.c.example.xyz/login'' empty_state
   = (Inr (90, Malicious, [H4_Keywords, H5_Subdomains, H6_Abused_TLD, H7_Domain_Age], 10),
      \<lparr>whois_cache = [(''example.xyz'', 10)], queries = [''example.xyz''],
       printed = [Looking_Up ''example.xyz'']\<rparr>)"
  by (simp add: eval_defs)

text \<open>The same URL when the WHOIS query fails.\<close>

lemma run_unknown:
  "analyze_url
     (sample_env (Inr (Some ''a.b.c.example.xyz'', ''/login''))
        (Inr (''example.xyz'', ''a.b.c'', ''xyz'')) (Inl (OtherError ''timed out'')))
     ''http://a.b.c.example.xyz/login'' empty_state
   = (Inr (40, Malicious, [H4_Keywords, H5_Subdomains, H6_Abused_TLD], - 1),
      \<lparr>whois_cache = [(''example.xyz'', - 1)], queries = [''example.xyz''],
       printed = [Looking_Up ''example.xyz'',
                  Failed_For ''example.xyz'' (OtherError ''timed out'')]\<rparr>)"
  by (simp add: eval_defs)

text \<open>An old domain with one subdomain label, and with three.\<close>

lemma run_www:
  "analyze_url
     (sample_env (Inr (Some ''www.example.com'', []))
        (Inr (''example.com'', ''www'', ''com'')) (Inr (Single (Aware 808358400))))
     ''www.example.com'' empty_state
   = (Inr (0, Benign, [], 11039),
      \<lparr>whois_cache = [(''example.com'', 11039)], queries = [''example.com''],
       printed = [Looking_Up ''example.com'']\<rparr>)"
  by (simp add: eval_defs)

lemma run_deep:
  "analyze_url
     (sample_env (Inr (Some ''a.b.c.example.com'', []))
        (Inr (''example.com'', ''a.b.c'', ''com'')) (Inr (Single (Aware 808358400))))
     ''a.b.c.example.com'' empty_state
   = (Inr (15, Suspicious, [H5_Subdomains], 11039),
      \<lparr>whois_cache = [(''example.com'', 11039)], queries = [''example.com''],
       printed = [Looking_Up ''example.com'']\<rparr>)"
  by (simp add: eval_defs)

subsection \<open>Runs that score and runs that fail\<close>

lemma parse_features_eq:
  assumes "urlparse env u = Inr (h, p)" and "tldextract env u = Inr (top_domain, sub, sfx)"
  shows "parse_features env u =
           Inr \<lparr>hostname = h, path = p, main_domain = top_domain, subdomain = sub,
                tld = CHR ''.'' # sfx\<rparr>"
  using assms by (simp add: parse_features_def)

lemma analyze_url_scored_eq:
  assumes "parse_features env (url_to_parse url) = Inr f"
    and "hostname f = Some host" and "host \<noteq> []" and "length url \<le> 75"
    and "get_domain_age env (main_domain f) st = (Inr age, st')"
  shows "analyze_url env url st =
           (Inr (fst (h7_domain_age age (structural_heuristics env url host f (0, []))),
                 final_verdict
                   (fst (h7_domain_age age (structural_heuristics env url host f (0, [])))),
                 snd (h7_domain_age age (structural_heuristics env url host f (0, []))),
                 age),
            st')"
  using assms by (simp add: analyze_url_def h1_length_def Let_def)

lemma analyze_url_long_eq:
  assumes "parse_features env (url_to_parse url) = Inr f"
    and "hostname f = Some host" and "host \<noteq> []" and "75 < length url"
  shows "analyze_url env url st = (Inl AttributeError, st)"
  using assms by (simp add: analyze_url_def h1_length_def dict_append_def)

subsection \<open>H7: young domains\<close>

text \<open>
  Claim C2. The claim speaks of every URL; the code follows it only up to 75
  characters. For a URL that parses with a non-empty hostname and a registered domain:
  when it has at most 75 characters, \<open>analyze_url\<close> returns a tuple whose age is the one
  \<open>get_domain_age\<close> resolves for the registered domain, H7 is in the list exactly when
  that age lies between 0 and 30 inclusive, an age of \<open>-1\<close> never puts it there, and
  the score is the sum of the other recorded weights plus the weight of H7 exactly in
  that range. When it has more than 75 characters, the call leaves with
  \<^verbatim>\<open>AttributeError\<close> at line 150 and the state untouched: the age is never
  resolved and H7 is not recorded, whatever the age of the domain.
\<close>

theorem h7_rule_stops_at_75_characters:
  assumes "urlparse env (url_to_parse url) = Inr (Some host, p)" and "host \<noteq> []"
    and "tldextract env (url_to_parse url) = Inr (top_domain, sub, sfx)"
  shows "(length url \<le> 75 \<longrightarrow>
            (\<exists>score v hs age st'.
               analyze_url env url st = (Inr (score, v, hs, age), st')
               \<and> get_domain_age env top_domain st = (Inr age, st')
               \<and> (H7_Domain_Age \<in> set hs \<longleftrightarrow> 0 \<le> age \<and> age \<le> 30)
               \<and> (age = - 1 \<longrightarrow> H7_Domain_Age \<notin> set hs)
               \<and> score = weight_sum (filter (\<lambda>h. h \<noteq> H7_Domain_Age) hs)
                   + (if 0 \<le> age \<and> age \<le> 30 then heuristic_weights H7_Domain_Age else 0)))
       \<and> (75 < length url \<longrightarrow> analyze_url env url st = (Inl AttributeError, st))"
proof (intro conjI impI)
  let ?f = "\<lparr>hostname = Some host, path = p, main_domain = top_domain, subdomain = sub,
             tld = CHR ''.'' # sfx\<rparr>"
  have pf: "parse_features env (url_to_parse url) = Inr ?f"
    using assms(1,3) by (rule parse_features_eq)
  {
    assume long: "75 < length url"
    show "analyze_url env url st = (Inl AttributeError, st)"
      by (rule analyze_url_long_eq [OF pf _ assms(2) long]) simp
  }
  {
    assume short: "length url \<le> 75"
    obtain age st' where g: "get_domain_age env top_domain st = (Inr age, st')"
      using get_domain_age_returns [of env top_domain st]
      by (cases "get_domain_age env top_domain st") auto
    let ?a = "structural_heuristics env url host ?f (0, [])"
    let ?b = "h7_domain_age age ?a"
    have run: "analyze_url env url st = (Inr (fst ?b, final_verdict (fst ?b), snd ?b, age), st')"
      by (rule analyze_url_scored_eq [OF pf _ assms(2) short]) (simp_all add: g)
    have no7: "H7_Domain_Age \<notin> set (snd ?a)" by (rule h7_not_structural)
    have hs: "snd ?b = snd ?a @ (if 0 \<le> age \<and> age \<le> 30 then [H7_Domain_Age] else [])"
      by (rule snd_h7)
    have mem: "H7_Domain_Age \<in> set (snd ?b) \<longleftrightarrow> 0 \<le> age \<and> age \<le> 30"
      using no7 by (simp add: hs)
    have flt: "filter (\<lambda>h. h \<noteq> H7_Domain_Age) (snd ?b) = snd ?a"
      using no7 by (auto simp: hs filter_id_conv)
    have sc: "fst ?b = weight_sum (filter (\<lambda>h. h \<noteq> H7_Domain_Age) (snd ?b))
        + (if 0 \<le> age \<and> age \<le> 30 then heuristic_weights H7_Domain_Age else 0)"
      unfolding flt fst_h7 structural_consistent_from_zero ..
    from mem have unknown: "age = - 1 \<longrightarrow> H7_Domain_Age \<notin> set (snd ?b)" by auto
    show "\<exists>score v hs age st'.
               analyze_url env url st = (Inr (score, v, hs, age), st')
               \<and> get_domain_age env top_domain st = (Inr age, st')
               \<and> (H7_Domain_Age \<in> set hs \<longleftrightarrow> 0 \<le> age \<and> age \<le> 30)
               \<and> (age = - 1 \<longrightarrow> H7_Domain_Age \<notin> set hs)
               \<and> score = weight_sum (filter (\<lambda>h. h \<noteq> H7_Domain_Age) hs)
                   + (if 0 \<le> age \<and> age \<le> 30 then heuristic_weights H7_Domain_Age else 0)"
      using run g mem unknown sc by blast
  }
qed

text \<open>
  A short URL on a domain registered ten days ago scores H7; a URL of 85 characters
  on a domain cached with age 10 raises instead.
\<close>

theorem h7_rule_stops_at_75_characters_witness:
  "analyze_url
     (sample_env (Inr (Some ''a.b.c.example.xyz'', ''/login''))
        (Inr (''example.xyz'', ''a.b.c'', ''xyz'')) (Inr (Single (Aware 1761264000))))
     ''http://a.b.c.example.xyz/login'' empty_state
   = (Inr (90, Malicious, [H4_Keywords, H5_Subdomains, H6_Abused_TLD, H7_Domain_Age], 10),
      \<lparr>whois_cache = [(''example.xyz'', 10)], queries = [''example.xyz''],
       printed = [Looking_Up ''example.xyz'']\<rparr>)
   \<and> analyze_url
       (sample_env (Inr (Some ''a.b.c.example.xyz'', ''/aaaaaaaaaaaaaaaaaaaaaaaaaaaaaaaaaaaaaaaaaaaaaaaaaaaaaaaaaaaa''))
          (Inr (''example.xyz'', ''a.b.c'', ''xyz'')) (Inr (Single (Aware 1761264000))))
       ''http://a.b.c.example.xyz/aaaaaaaaaaaaaaaaaaaaaaaaaaaaaaaaaaaaaaaaaaaaaaaaaaaaaaaaaaaa''
       \<lparr>whois_cache = [(''example.xyz'', 10)], queries = [], printed = []\<rparr>
     = (Inl AttributeError,
        \<lparr>whois_cache = [(''example.xyz'', 10)], queries = [], printed = []\<rparr>)"
  using h7_rule_stops_at_75_characters
    [of "sample_env (Inr (Some ''a.b.c.example.xyz'', ''/login''))
          (Inr (''example.xyz'', ''a.b.c'', ''xyz'')) (Inr (Single (Aware 1761264000)))"
        "''http://a.b.c.example.xyz/login''" "''a.b.c.example.xyz''" "''/login''"
        "''example.xyz''" "''a.b.c''" "''xyz''" empty_state]
    h7_rule_stops_at_75_characters
    [of "sample_env (Inr (Some ''a.b.c.example.xyz'', ''/aaaaaaaaaaaaaaaaaaaaaaaaaaaaaaaaaaaaaaaaaaaaaaaaaaaaaaaaaaaa''))
          (Inr (''example.xyz'', ''a.b.c'', ''xyz'')) (Inr (Single (Aware 1761264000)))"
        "''http://a.b.c.example.xyz/aaaaaaaaaaaaaaaaaaaaaaaaaaaaaaaaaaaaaaaaaaaaaaaaaaaaaaaaaaaa''" "''a.b.c.example.xyz''" "''/aaaaaaaaaaaaaaaaaaaaaaaaaaaaaaaaaaaaaaaaaaaaaaaaaaaaaaaaaaaa''"
        "''example.xyz''" "''a.b.c''" "''xyz''"
        "\<lparr>whois_cache = [(''example.xyz'', 10)], queries = [], printed = []\<rparr>"]
    run_young
  by (simp add: sample_env_def url_to_parse_def)

subsection \<open>The verdict\<close>



subsection \<open>H5: subdomains\<close>

text \<open>
  Claim C4. The claim speaks of every URL; the code follows it only up to 75
  characters. For a URL that parses with a non-empty hostname: when it has at most 75
  characters, \<open>analyze_url\<close> returns a tuple and H5 is in its list exactly when the
  subdomain extracted from the URL contains at least two dots. When it has more than
  75 characters, the call leaves with \<^verbatim>\<open>AttributeError\<close> at line 150 and H5 is not
  recorded, however many dots the subdomain has.
\<close>

theorem h5_rule_stops_at_75_characters:
  assumes "urlparse env (url_to_parse url) = Inr (Some host, p)" and "host \<noteq> []"
    and "tldextract env (url_to_parse url) = Inr (top_domain, sub, sfx)"
  shows "(length url \<le> 75 \<longrightarrow>
            (\<exists>score v hs age st'.
               analyze_url env url st = (Inr (score, v, hs, age), st')
               \<and> (H5_Subdomains \<in> set hs \<longleftrightarrow> 2 \<le> count_list sub (CHR ''.''))))
       \<and> (75 < length url \<longrightarrow> analyze_url env url st = (Inl AttributeError, st))"
proof (intro conjI impI)
  let ?f = "\<lparr>hostname = Some host, path = p, main_domain = top_domain, subdomain = sub,
             tld = CHR ''.'' # sfx\<rparr>"
  have pf: "parse_features env (url_to_parse url) = Inr ?f"
    using assms(1,3) by (rule parse_features_eq)
  {
    assume long: "75 < length url"
    show "analyze_url env url st = (Inl AttributeError, st)"
      by (rule analyze_url_long_eq [OF pf _ assms(2) long]) simp
  }
  {
    assume short: "length url \<le> 75"
    obtain age st' where g: "get_domain_age env top_domain st = (Inr age, st')"
      using get_domain_age_returns [of env top_domain st]
      by (cases "get_domain_age env top_domain st") auto
    let ?b = "h7_domain_age age (structural_heuristics env url host ?f (0, []))"
    have run: "analyze_url env url st = (Inr (fst ?b, final_verdict (fst ?b), snd ?b, age), st')"
      by (rule analyze_url_scored_eq [OF pf _ assms(2) short]) (simp_all add: g)
    have mem: "H5_Subdomains \<in> set (snd ?b) \<longleftrightarrow> 2 \<le> count_list sub (CHR ''.'')"
      by (simp add: snd_h7 snd_structural)
    show "\<exists>score v hs age st'.
               analyze_url env url st = (Inr (score, v, hs, age), st')
               \<and> (H5_Subdomains \<in> set hs \<longleftrightarrow> 2 \<le> count_list sub (CHR ''.''))"
      using run mem by blast
  }
qed

text \<open>
  \<open>www.example.com\<close>, with the subdomain \<open>www\<close>, does not score H5;
  \<open>a.b.c.example.com\<close>, with the subdomain \<open>a.b.c\<close>, does; a URL of 85 characters with
  the subdomain \<open>a.b.c\<close> raises.
\<close>

theorem h5_rule_stops_at_75_characters_witness:
  "analyze_url
     (sample_env (Inr (Some ''www.example.com'', []))
        (Inr (''example.com'', ''www'', ''com'')) (Inr (Single (Aware 808358400))))
     ''www.example.com'' empty_state
   = (Inr (0, Benign, [], 11039),
      \<lparr>whois_cache = [(''example.com'', 11039)], queries = [''example.com''],
       printed = [Looking_Up ''example.com'']\<rparr>)
   \<and> analyze_url
     (sample_env (Inr (Some ''a.b.c.example.com'', []))
        (Inr (''example.com'', ''a.b.c'', ''com'')) (Inr (Single (Aware 808358400))))
     ''a.b.c.example.com'' empty_state
   = (Inr (15, Suspicious, [H5_Subdomains], 11039),
      \<lparr>whois_cache = [(''example.com'', 11039)], queries = [''example.com''],
       printed = [Looking_Up ''example.com'']\<rparr>)
   \<and> analyze_url
     (sample_env (Inr (Some ''a.b.c.example.com'', ''/aaaaaaaaaaaaaaaaaaaaaaaaaaaaaaaaaaaaaaaaaaaaaaaaaaaaaaaaaaaa''))
        (Inr (''example.com'', ''a.b.c'', ''com'')) (Inr (Single (Aware 808358400))))
     ''http://a.b.c.example.com/aaaaaaaaaaaaaaaaaaaaaaaaaaaaaaaaaaaaaaaaaaaaaaaaaaaaaaaaaaaa'' empty_state
   = (Inl AttributeError, empty_state)"
  using h5_rule_stops_at_75_characters
    [of "sample_env (Inr (Some ''www.example.com'', []))
          (Inr (''example.com'', ''www'', ''com'')) (Inr (Single (Aware 808358400)))"
        "''www.example.com''" "''www.example.com''" "[]"
        "''example.com''" "''www''" "''com''" empty_state]
    h5_rule_stops_at_75_characters
    [of "sample_env (Inr (Some ''a.b.c.example.com'', []))
          (Inr (''example.com'', ''a.b.c'', ''com'')) (Inr (Single (Aware 808358400)))"
        "''a.b.c.example.com''" "''a.b.c.example.com''" "[]"
        "''example.com''" "''a.b.c''" "''com''" empty_state]
    h5_rule_stops_at_75_characters
    [of "sample_env (Inr (Some ''a.b.c.example.com'', ''/aaaaaaaaaaaaaaaaaaaaaaaaaaaaaaaaaaaaaaaaaaaaaaaaaaaaaaaaaaaa''))
          (Inr (''example.com'', ''a.b.c'', ''com'')) (Inr (Single (Aware 808358400)))"
        "''http://a.b.c.example.com/aaaaaaaaaaaaaaaaaaaaaaaaaaaaaaaaaaaaaaaaaaaaaaaaaaaaaaaaaaaa''" "''a.b.c.example.com''" "''/aaaaaaaaaaaaaaaaaaaaaaaaaaaaaaaaaaaaaaaaaaaaaaaaaaaaaaaaaaaa''"
        "''example.com''" "''a.b.c''" "''com''" empty_state]
    run_www run_deep
  by (simp add: sample_env_def url_to_parse_def)

subsection \<open>Score and list agree\<close>

text \<open>
  Claim C9. Whenever \<open>analyze_url\<close> returns a tuple, the score is the sum of the
  weights of the heuristics in the returned list, and no heuristic is listed twice.
\<close>

theorem score_is_sum_of_triggered_weights:
  assumes "analyze_url env url st = (Inr (score, v, hs, age), st')"
  shows "score = sum_list (map heuristic_weights hs) \<and> distinct hs"
proof -
  from analyze_url_cases [OF assms]
  consider "score = 0 \<and> hs = []"
    | f host where
        "(score, hs) = h7_domain_age age (structural_heuristics env url host f (0, []))"
    by blast
  then show ?thesis
  proof cases
    case 1
    then show ?thesis by simp
  next
    case 2
    have "consistent (0, [])" by (simp add: consistent_def weight_sum_def)
    then have "consistent (h7_domain_age age (structural_heuristics env url host f (0, [])))"
      by (intro consistent_h7 consistent_structural)
    with 2 have "consistent (score, hs)" by simp
    then have s: "score = sum_list (map heuristic_weights hs)"
      by (simp add: consistent_def weight_sum_def)
    from 2 have "hs = snd (h7_domain_age age (structural_heuristics env url host f (0, [])))"
      by (metis snd_conv)
    then have "distinct hs" by (simp add: snd_h7 snd_structural)
    with s show ?thesis by simp
  qed
qed

theorem score_is_sum_of_triggered_weights_witness:
  "(90::int) = sum_list (map heuristic_weights
                 [H4_Keywords, H5_Subdomains, H6_Abused_TLD, H7_Domain_Age])
   \<and> distinct [H4_Keywords, H5_Subdomains, H6_Abused_TLD, H7_Domain_Age]"
  using score_is_sum_of_triggered_weights [OF run_young] by simp

subsection \<open>H1: long URLs\<close>

text \<open>
  Claim C1. The claim says that a URL of more than 75 characters gets the H1 weight,
  has H1 recorded and that the call returns; the code does not do so. For every URL of
  more than 75 characters that parses with a non-empty hostname, \<open>analyze_url\<close> leaves
  with \<^verbatim>\<open>AttributeError\<close> at line 150 and returns no score, no verdict and no list;
  the state is as it was, so no age is looked up. The example is a URL of 84
  characters under \<open>.xyz\<close> with no other heuristic condition true, for which the claim
  expects the score 25.
\<close>

theorem long_url_raises_attribute_error:
  assumes "75 < length url"
    and "parse_features env (url_to_parse url) = Inr f"
    and "hostname f = Some host" and "host \<noteq> []"
  shows "analyze_url env url st = (Inl AttributeError, st)"
  using assms by (simp add: analyze_url_def h1_length_def dict_append_def)

theorem long_url_raises_attribute_error_witness:
  "analyze_url
     (sample_env
        (Inr (Some ''example.xyz'',
              ''/aaaaaaaaaaaaaaaaaaaaaaaaaaaaaaaaaaaaaaaaaaaaaaaaaaaaaaaaaaaaaaaaa''))
        (Inr (''example.xyz'', [], ''xyz'')) (Inr (Single (Aware 808358400))))
     ''http://example.xyz/aaaaaaaaaaaaaaaaaaaaaaaaaaaaaaaaaaaaaaaaaaaaaaaaaaaaaaaaaaaaaaaaa''
     empty_state
   = (Inl AttributeError, empty_state)"
proof -
  let ?url =
    "''http://example.xyz/aaaaaaaaaaaaaaaaaaaaaaaaaaaaaaaaaaaaaaaaaaaaaaaaaaaaaaaaaaaaaaaaa''"
  let ?env = "sample_env
        (Inr (Some ''example.xyz'',
              ''/aaaaaaaaaaaaaaaaaaaaaaaaaaaaaaaaaaaaaaaaaaaaaaaaaaaaaaaaaaaaaaaaa''))
        (Inr (''example.xyz'', [], ''xyz'')) (Inr (Single (Aware 808358400)))"
  have len: "75 < length ?url" by simp
  obtain f where p: "parse_features ?env (url_to_parse ?url) = Inr f"
    and h: "hostname f = Some ''example.xyz''"
    by (simp add: parse_features_def sample_env_def)
  show ?thesis
    by (rule long_url_raises_attribute_error [OF len p h]) simp
qed

subsection \<open>Parse failures\<close>

text \<open>
  Claim C5. When the parsing block raises, \<open>analyze_url\<close> returns score 0, the verdict
  \<open>Error-Parsing\<close>, an empty list and age \<open>-1\<close>, and only prints the failure. When the
  parse succeeds with no hostname (\<^verbatim>\<open>None\<close> or the empty string), it returns score 0,
  the verdict \<open>Error-No-Hostname\<close>, an empty list and age \<open>-1\<close>. In both cases the
  cache and the list of WHOIS queries are as before: no heuristic was evaluated.
\<close>

theorem parse_failure_result:
  "(parse_features env (url_to_parse url) = Inl e \<longrightarrow>
      analyze_url env url st
        = (Inr (0, Error_Parsing, [], - 1), print (Failed_To_Parse url e) st))
   \<and> (parse_features env (url_to_parse url) = Inr f
        \<and> (hostname f = None \<or> hostname f = Some []) \<longrightarrow>
      analyze_url env url st = (Inr (0, Error_No_Hostname, [], - 1), st))"
proof (intro conjI impI)
  assume "parse_features env (url_to_parse url) = Inl e"
  then show "analyze_url env url st
        = (Inr (0, Error_Parsing, [], - 1), print (Failed_To_Parse url e) st)"
    by (simp add: analyze_url_def)
next
  assume a: "parse_features env (url_to_parse url) = Inr f
        \<and> (hostname f = None \<or> hostname f = Some [])"
  then consider "hostname f = None" | "hostname f = Some []" by auto
  then show "analyze_url env url st = (Inr (0, Error_No_Hostname, [], - 1), st)"
  proof cases
    case 1
    with a show ?thesis by (simp add: analyze_url_def)
  next
    case 2
    with a show ?thesis by (simp add: analyze_url_def)
  qed
qed

text \<open>
  An unclosed IPv6 bracket, on which \<^verbatim>\<open>urlparse\<close> raises \<^verbatim>\<open>ValueError\<close>, and the
  empty string, for which the hostname of \<^verbatim>\<open>http://\<close> is \<^verbatim>\<open>None\<close>.
\<close>

theorem parse_failure_result_witness:
  "analyze_url (sample_env (Inl ValueError) (Inr ([], [], [])) (Inl (OtherError ''timed out'')))
     ''http://[::1'' empty_state
     = (Inr (0, Error_Parsing, [], - 1),
        \<lparr>whois_cache = [], queries = [], printed = [Failed_To_Parse ''http://[::1'' ValueError]\<rparr>)
   \<and> analyze_url (sample_env (Inr (None, [])) (Inr ([], [], [])) (Inl (OtherError ''timed out'')))
        [] empty_state
     = (Inr (0, Error_No_Hostname, [], - 1), empty_state)"
  using parse_failure_result
    [of "sample_env (Inl ValueError) (Inr ([], [], [])) (Inl (OtherError ''timed out''))"
        "''http://[::1''" ValueError empty_state]
    parse_failure_result
    [of "sample_env (Inr (None, [])) (Inr ([], [], [])) (Inl (OtherError ''timed out''))"
        "[]" _ empty_state "\<lparr>hostname = None, path = [], main_domain = [], subdomain = [],
           tld = ''.''\<rparr>"]
  by (simp add: parse_features_def sample_env_def url_to_parse_def print_def empty_state_def)

subsection \<open>The age cache\<close>

lemma get_domain_age_hit:
  "map_of (whois_cache st) domain = Some v \<Longrightarrow> get_domain_age env domain st = (Inr v, st)"
  by (simp add: get_domain_age_def)

lemma get_domain_age_miss:
  assumes "map_of (whois_cache st) domain = None"
  shows "\<exists>a st1. get_domain_age env domain st = (Inr a, st1)
           \<and> map_of (whois_cache st1) domain = Some a
           \<and> queries st1 = queries st @ [domain]
           \<and> (a = - 1 \<or> whois_age env domain = Inr (Some a))"
  using assms
  by (auto simp: get_domain_age_def Let_def store_def print_def update_conv'
        split: sum.split option.split)

text \<open>
  Claim C6. A domain present in the cache, with whatever value, is answered with the
  stored value and the state, the list of WHOIS queries included, is untouched. Every
  lookup returns an age that is in the cache when it returns; a miss sends exactly one
  query. A second lookup of the same domain, even with another provider and clock
  \<open>env'\<close>, returns the same age and leaves the state as the first lookup left it, so
  the two lookups together send at most one query.
\<close>

theorem cached_domain_never_requeried:
  "(map_of (whois_cache st) domain = Some v \<longrightarrow> get_domain_age env domain st = (Inr v, st))
   \<and> (\<exists>a st1. get_domain_age env domain st = (Inr a, st1)
         \<and> map_of (whois_cache st1) domain = Some a
         \<and> (map_of (whois_cache st) domain = None \<longrightarrow> queries st1 = queries st @ [domain])
         \<and> length (queries st1) \<le> length (queries st) + 1
         \<and> get_domain_age env' domain st1 = (Inr a, st1))"
proof (cases "map_of (whois_cache st) domain")
  case None
  from get_domain_age_miss [OF None, of env] obtain a st1 where
    g: "get_domain_age env domain st = (Inr a, st1)"
    and c: "map_of (whois_cache st1) domain = Some a"
    and q: "queries st1 = queries st @ [domain]"
    by blast
  from c have "get_domain_age env' domain st1 = (Inr a, st1)" by (rule get_domain_age_hit)
  with None g c q show ?thesis by simp
next
  case (Some w)
  then have "get_domain_age env domain st = (Inr w, st)"
    and "get_domain_age env' domain st = (Inr w, st)"
    by (rule get_domain_age_hit)+
  with Some show ?thesis by simp
qed

text \<open>
  A cached sentinel is returned although the provider would now report a date; and an
  age resolved by a first lookup is returned by a second one although the provider
  now fails.
\<close>

theorem cached_domain_never_requeried_witness:
  "get_domain_age (sample_env (Inl ValueError) (Inl ValueError) (Inr (Single (Aware 0))))
     ''example.com'' \<lparr>whois_cache = [(''example.com'', - 1)], queries = [], printed = []\<rparr>
   = (Inr (- 1), \<lparr>whois_cache = [(''example.com'', - 1)], queries = [], printed = []\<rparr>)
   \<and> get_domain_age
       (sample_env (Inl ValueError) (Inl ValueError) (Inr (Single (Aware 808358400))))
       ''example.com'' empty_state
     = (Inr 11039,
        \<lparr>whois_cache = [(''example.com'', 11039)], queries = [''example.com''],
         printed = [Looking_Up ''example.com'']\<rparr>)
   \<and> get_domain_age
       (sample_env (Inl ValueError) (Inl ValueError) (Inl (OtherError ''timed out'')))
       ''example.com''
       \<lparr>whois_cache = [(''example.com'', 11039)], queries = [''example.com''],
        printed = [Looking_Up ''example.com'']\<rparr>
     = (Inr 11039,
        \<lparr>whois_cache = [(''example.com'', 11039)], queries = [''example.com''],
         printed = [Looking_Up ''example.com'']\<rparr>)"
proof -
  have first: "get_domain_age
       (sample_env (Inl ValueError) (Inl ValueError) (Inr (Single (Aware 808358400))))
       ''example.com'' empty_state
     = (Inr 11039,
        \<lparr>whois_cache = [(''example.com'', 11039)], queries = [''example.com''],
         printed = [Looking_Up ''example.com'']\<rparr>)"
    by (simp add: get_domain_age_def whois_age_def age_in_days_def sample_env_def
          empty_state_def print_def store_def Let_def)
  show ?thesis
    using first
      cached_domain_never_requeried
        [of "\<lparr>whois_cache = [(''example.com'', - 1)], queries = [], printed = []\<rparr>"
          "''example.com''" "- 1"
          "sample_env (Inl ValueError) (Inl ValueError) (Inr (Single (Aware 0)))"]
      cached_domain_never_requeried
        [of empty_state "''example.com''" _
          "sample_env (Inl ValueError) (Inl ValueError) (Inr (Single (Aware 808358400)))"
          "sample_env (Inl ValueError) (Inl ValueError) (Inl (OtherError ''timed out''))"]
    by auto
qed

text \<open>
  Claim C7. No lookup leaves with an exception. On a miss, when the provider raises,
  reports no creation date or an empty list of dates, or reports a first date from
  which the current time cannot be subtracted, the lookup returns \<open>-1\<close>, has stored
  \<open>-1\<close> for the domain and has sent one query.
\<close>

theorem failed_lookup_stores_sentinel:
  "(\<exists>a st'. get_domain_age env domain st = (Inr a, st'))
   \<and> (map_of (whois_cache st) domain = None
        \<and> (whois env domain = Inl e \<or> whois env domain = Inr No_Date
           \<or> whois env domain = Inr (Multiple [])
           \<or> whois env domain = Inr (Single Unsubtractable)
           \<or> whois env domain = Inr (Multiple (Unsubtractable # ds))) \<longrightarrow>
      (\<exists>st'. get_domain_age env domain st = (Inr (- 1), st')
         \<and> map_of (whois_cache st') domain = Some (- 1)
         \<and> queries st' = queries st @ [domain]))"
proof -
  have "\<exists>a st'. get_domain_age env domain st = (Inr a, st')"
    using get_domain_age_returns [of env domain st]
    by (cases "get_domain_age env domain st") auto
  moreover have "\<exists>st'. get_domain_age env domain st = (Inr (- 1), st')
         \<and> map_of (whois_cache st') domain = Some (- 1)
         \<and> queries st' = queries st @ [domain]"
    if "map_of (whois_cache st) domain = None"
      and "whois env domain = Inl e \<or> whois env domain = Inr No_Date
           \<or> whois env domain = Inr (Multiple [])
           \<or> whois env domain = Inr (Single Unsubtractable)
           \<or> whois env domain = Inr (Multiple (Unsubtractable # ds))"
  proof -
    from that(2)
    have "whois_age env domain = Inr None \<or> (\<exists>e'. whois_age env domain = Inl e')"
      by (auto simp: whois_age_def age_in_days_def)
    with that(1) show ?thesis
      by (auto simp: get_domain_age_def Let_def store_def print_def update_conv')
  qed
  ultimately show ?thesis by blast
qed

theorem failed_lookup_stores_sentinel_witness:
  "get_domain_age (sample_env (Inl ValueError) (Inl ValueError) (Inl (OtherError ''timed out'')))
     ''example.com'' empty_state
   = (Inr (- 1),
      \<lparr>whois_cache = [(''example.com'', - 1)], queries = [''example.com''],
       printed = [Looking_Up ''example.com'',
                  Failed_For ''example.com'' (OtherError ''timed out'')]\<rparr>)"
  using failed_lookup_stores_sentinel
    [of "sample_env (Inl ValueError) (Inl ValueError) (Inl (OtherError ''timed out''))"
        "''example.com''" empty_state "OtherError ''timed out''"]
  by (simp add: get_domain_age_def whois_age_def sample_env_def empty_state_def print_def
        store_def Let_def)

subsection \<open>Loading and saving\<close>

text \<open>
  What \<open>check_cache\<close> recovers from: an absent file and text that does not decode as
  JSON give an empty cache and one printed line.
\<close>

lemma check_cache_recovers:
  "(read_cache_file env = Inl FileNotFoundError \<longrightarrow>
      check_cache env st = (Inr (), (print No_Cache_File st)\<lparr>whois_cache := JObject []\<rparr>))
   \<and> (read_cache_file env = Inr content \<and> json_load env content = Inl JSONDecodeError \<longrightarrow>
      check_cache env st = (Inr (), (print Cache_Broken st)\<lparr>whois_cache := JObject []\<rparr>))"
  by (simp add: check_cache_def check_cache_handlers_def)

lemma check_cache_loads:
  assumes "read_cache_file env = Inr content" and "json_load env content = Inr j"
    and "json_len j = Inr n"
  shows "check_cache env st = (Inr (), print (Found_Entries n) (st\<lparr>whois_cache := j\<rparr>))"
  using assms by (simp add: check_cache_def)

text \<open>\<open>save_cache\<close> prints a failed write and always returns, the cache unchanged.\<close>

lemma save_cache_never_raises:
  "(write_cache_file env (whois_cache st) = Inl e \<longrightarrow>
      save_cache env st = (Inr (), print (Could_Not_Save e) st))
   \<and> (\<exists>st'. save_cache env st = (Inr (), st') \<and> whois_cache st' = whois_cache st)"
  by (cases "write_cache_file env (whois_cache st)") (simp_all add: save_cache_def print_def)

text \<open>
  Claim C8. The claim says that malformed storage yields an empty cache and a
  non-fatal condition; \<open>check_cache\<close> does so only for text that fails to decode as
  JSON. Any other exception raised while the file is opened and read, such as
  \<^verbatim>\<open>UnicodeDecodeError\<close> for a file whose bytes are not text, leaves \<open>check_cache\<close>
  with the state as it was; and a file holding a JSON number, boolean or \<^verbatim>\<open>null\<close>
  is assigned to the cache and then raises \<^verbatim>\<open>TypeError\<close> at \<^verbatim>\<open>len\<close>, which leaves
  \<open>check_cache\<close> too. No empty cache is started and nothing is printed.
\<close>

theorem check_cache_lets_load_errors_escape:
  "(read_cache_file env = Inl e \<and> e \<noteq> FileNotFoundError \<and> e \<noteq> JSONDecodeError \<longrightarrow>
      check_cache env st = (Inl e, st))
   \<and> (read_cache_file env = Inr content \<and> json_load env content = Inr j
        \<and> (j = JNull \<or> j = JBool b \<or> j = JInt n \<or> j = JFloat) \<longrightarrow>
      check_cache env st = (Inl TypeError, st\<lparr>whois_cache := j\<rparr>))"
proof (intro conjI impI)
  assume "read_cache_file env = Inl e \<and> e \<noteq> FileNotFoundError \<and> e \<noteq> JSONDecodeError"
  then show "check_cache env st = (Inl e, st)"
    by (simp add: check_cache_def check_cache_handlers_def)
next
  assume a: "read_cache_file env = Inr content \<and> json_load env content = Inr j
        \<and> (j = JNull \<or> j = JBool b \<or> j = JInt n \<or> j = JFloat)"
  then have "json_len j = Inl TypeError" by (auto simp: json_len_def)
  with a show "check_cache env st = (Inl TypeError, st\<lparr>whois_cache := j\<rparr>)"
    by (simp add: check_cache_def check_cache_handlers_def)
qed

text \<open>A cache file that is not text, and a cache file that holds the number 3.\<close>

theorem check_cache_lets_load_errors_escape_witness:
  "check_cache
     ((sample_env (Inl ValueError) (Inl ValueError) (Inl ValueError))
        \<lparr>read_cache_file := Inl UnicodeDecodeError\<rparr>)
     \<lparr>whois_cache = JObject [], queries = [], printed = []\<rparr>
   = (Inl UnicodeDecodeError, \<lparr>whois_cache = JObject [], queries = [], printed = []\<rparr>)
   \<and> check_cache
       ((sample_env (Inl ValueError) (Inl ValueError) (Inl ValueError))
          \<lparr>read_cache_file := Inr ''3'', json_load := (\<lambda>t. Inr (JInt 3))\<rparr>)
       \<lparr>whois_cache = JObject [], queries = [], printed = []\<rparr>
     = (Inl TypeError, \<lparr>whois_cache = JInt 3, queries = [], printed = []\<rparr>)"
  using check_cache_lets_load_errors_escape
    [of "(sample_env (Inl ValueError) (Inl ValueError) (Inl ValueError))
           \<lparr>read_cache_file := Inl UnicodeDecodeError\<rparr>"
        UnicodeDecodeError "\<lparr>whois_cache = JObject [], queries = [], printed = []\<rparr>"]
    check_cache_lets_load_errors_escape
    [of "(sample_env (Inl ValueError) (Inl ValueError) (Inl ValueError))
           \<lparr>read_cache_file := Inr ''3'', json_load := (\<lambda>t. Inr (JInt 3))\<rparr>"
        _ "\<lparr>whois_cache = JObject [], queries = [], printed = []\<rparr>" "''3''" "JInt 3" _ 3]
  by (simp add: sample_env_def)

subsection \<open>URLs without an http scheme\<close>

















end
